theory Spec2Isabelle
  imports Complex_Main "HOL-Library.Multiset"
begin

section \<open>Schema of the store-rating platform\<close>

text \<open>
  The tables of the migration \<^verbatim>\<open>20250927154252_...sql\<close>. A \<^verbatim>\<open>UUID\<close> and a
  \<^verbatim>\<open>TIMESTAMP WITH TIME ZONE\<close> are natural numbers; \<^verbatim>\<open>gen_random_uuid()\<close> is a
  counter of the database (a fresh identifier on every call); \<^verbatim>\<open>now()\<close> is an argument
  of each statement. A table is the list of its rows, in insertion order.
  The column \<^verbatim>\<open>average_rating DECIMAL(2,1)\<close> holds a number with one fractional digit:
  it is kept in tenths, so \<open>35\<close> stands for \<^verbatim>\<open>3.5\<close>.
\<close>

type_synonym uuid = nat
type_synonym timestamptz = nat

datatype app_role = system_administrator | normal_user | store_owner

record user_role_row =
  ur_id :: uuid
  ur_user_id :: uuid
  ur_role :: app_role
  ur_created_at :: timestamptz

record store_row =
  st_id :: uuid
  st_user_id :: uuid
  st_name :: string
  st_email :: string
  st_address :: string
  st_average_rating :: int
  st_total_ratings :: int
  st_created_at :: timestamptz
  st_updated_at :: timestamptz

record rating_row =
  rt_id :: uuid
  rt_user_id :: uuid
  rt_store_id :: uuid
  rt_rating :: int
  rt_created_at :: timestamptz
  rt_updated_at :: timestamptz

record database =
  auth_users :: "uuid list"
  user_roles :: "user_role_row list"
  stores :: "store_row list"
  ratings :: "rating_row list"
  next_uuid :: uuid

text \<open>The errors a statement can end with (PostgreSQL's condition names).\<close>

datatype pg_error =
    insufficient_privilege
  | check_violation
  | unique_violation
  | foreign_key_violation
  | numeric_value_out_of_range

section \<open>Row-level security\<close>

text \<open>
  Every request of the client runs as the signed-in user; \<open>uid\<close> below is \<^verbatim>\<open>auth.uid()\<close>.
  \<^verbatim>\<open>has_role\<close> is \<^verbatim>\<open>SECURITY DEFINER\<close>: it reads the whole of \<^verbatim>\<open>user_roles\<close>, whoever
  calls it. The policies of one table and one command are permissive, so they are joined
  by \<open>\<or>\<close>; a \<^verbatim>\<open>FOR ALL\<close> policy counts for every command, and a policy with no
  \<^verbatim>\<open>WITH CHECK\<close> uses its \<^verbatim>\<open>USING\<close> expression for new rows too.
\<close>

definition has_role :: "database \<Rightarrow> uuid \<Rightarrow> app_role \<Rightarrow> bool" where
  "has_role db user_id' role' =
     list_ex (\<lambda>r. ur_user_id r = user_id' \<and> ur_role r = role') (user_roles db)"

text \<open>\<^verbatim>\<open>"Users can view their own roles"\<close>, \<^verbatim>\<open>"System admins can manage all roles"\<close>.\<close>

definition user_roles_select_using :: "database \<Rightarrow> uuid \<Rightarrow> user_role_row \<Rightarrow> bool" where
  "user_roles_select_using db uid r =
     (uid = ur_user_id r \<or> has_role db uid system_administrator)"

definition user_roles_insert_check :: "database \<Rightarrow> uuid \<Rightarrow> user_role_row \<Rightarrow> bool" where
  "user_roles_insert_check db uid r = has_role db uid system_administrator"

section \<open>The role store\<close>

record user_role_payload =
  urp_user_id :: uuid
  urp_role :: app_role

text \<open>
  \<^verbatim>\<open>supabase.from('user_roles').insert({user_id, role})\<close>: the policy check on the new
  row, then \<^verbatim>\<open>UNIQUE (user_id, role)\<close>, then the reference to \<^verbatim>\<open>auth.users\<close>.
\<close>

definition insert_user_role ::
  "database \<Rightarrow> uuid \<Rightarrow> timestamptz \<Rightarrow> user_role_payload \<Rightarrow> pg_error + database" where
  "insert_user_role db uid now p =
     (let row = \<lparr>ur_id = next_uuid db, ur_user_id = urp_user_id p, ur_role = urp_role p,
                 ur_created_at = now\<rparr>
      in if user_roles_insert_check db uid row then
           if list_ex (\<lambda>r. ur_user_id r = urp_user_id p \<and> ur_role r = urp_role p) (user_roles db)
           then Inl unique_violation
           else if urp_user_id p \<in> set (auth_users db)
           then Inr (db\<lparr>user_roles := user_roles db @ [row], next_uuid := Suc (next_uuid db)\<rparr>)
           else Inl foreign_key_violation
         else Inl insufficient_privilege)"

text \<open>
  \<^verbatim>\<open>select('*', { count: 'exact', head: true })\<close> on \<^verbatim>\<open>user_roles\<close>: the number of rows
  the caller may see.
\<close>

definition count_user_roles :: "database \<Rightarrow> uuid \<Rightarrow> nat" where
  "count_user_roles db uid = length (filter (user_roles_select_using db uid) (user_roles db))"

definition default_role_for :: "nat \<Rightarrow> app_role" where
  "default_role_for count' = (if count' = 0 then system_administrator else normal_user)"

text \<open>
  \<^verbatim>\<open>assignDefaultRole(userId)\<close> of the auth provider: the count, then the insert, as two
  requests; \<open>None\<close> is the \<^verbatim>\<open>null\<close> it returns when the insert fails. It is only called
  with the id of the signed-in user, so \<^verbatim>\<open>auth.uid()\<close> is \<open>userId\<close>.
\<close>

definition assignDefaultRole ::
  "database \<Rightarrow> timestamptz \<Rightarrow> uuid \<Rightarrow> database \<times> app_role option" where
  "assignDefaultRole db now userId =
     (let count' = count_user_roles db userId;
          role = default_role_for count'
      in case insert_user_role db userId now \<lparr>urp_user_id = userId, urp_role = role\<rparr> of
           Inl error \<Rightarrow> (db, None)
         | Inr db' \<Rightarrow> (db', Some role))"

text \<open>
  The role part of \<^verbatim>\<open>onSubmit\<close> of the sign-up form: the same count and insert for the
  new user; a failed insert is only logged, and the role chosen is announced either way.
\<close>

definition onSubmit_role :: "database \<Rightarrow> timestamptz \<Rightarrow> uuid \<Rightarrow> database \<times> app_role" where
  "onSubmit_role db now userId =
     (let count' = count_user_roles db userId;
          role = default_role_for count'
      in case insert_user_role db userId now \<lparr>urp_user_id = userId, urp_role = role\<rparr> of
           Inl roleError \<Rightarrow> (db, role)
         | Inr db' \<Rightarrow> (db', role))"

text \<open>
  \<^verbatim>\<open>.maybeSingle()\<close>: no row is \<^verbatim>\<open>data = null\<close> with no error, one row is that row,
  more than one row is an error.
\<close>

datatype 'a maybe_single = NoRow | OneRow 'a | MultipleRows

fun maybeSingle :: "'a list \<Rightarrow> 'a maybe_single" where
  "maybeSingle [] = NoRow"
| "maybeSingle [r] = OneRow r"
| "maybeSingle (r # r' # rs) = MultipleRows"

definition select_user_roles :: "database \<Rightarrow> uuid \<Rightarrow> uuid \<Rightarrow> user_role_row list" where
  "select_user_roles db uid userId =
     filter (\<lambda>r. user_roles_select_using db uid r \<and> ur_user_id r = userId) (user_roles db)"

text \<open>
  \<^verbatim>\<open>fetchUserRole(userId)\<close>: the result is the database and the \<^verbatim>\<open>userRole\<close> it sets
  (\<open>None\<close> for \<^verbatim>\<open>null\<close>).
\<close>

definition fetchUserRole ::
  "database \<Rightarrow> timestamptz \<Rightarrow> uuid \<Rightarrow> database \<times> app_role option" where
  "fetchUserRole db now userId =
     (case maybeSingle (select_user_roles db userId userId) of
        MultipleRows \<Rightarrow> (db, None)
      | NoRow \<Rightarrow> assignDefaultRole db now userId
      | OneRow data \<Rightarrow> (db, Some (ur_role data)))"

text \<open>\<^verbatim>\<open>renderDashboard\<close> of the index page: the \<^verbatim>\<open>switch\<close> on \<^verbatim>\<open>userRole\<close>.\<close>

datatype dashboard = AdminDashboard | UserDashboard | StoreOwnerDashboard | RoleAssignmentPending

fun renderDashboard :: "app_role option \<Rightarrow> dashboard" where
  "renderDashboard (Some system_administrator) = AdminDashboard"
| "renderDashboard (Some normal_user) = UserDashboard"
| "renderDashboard (Some store_owner) = StoreOwnerDashboard"
| "renderDashboard None = RoleAssignmentPending"

section \<open>Policies of the stores and ratings tables\<close>

text \<open>\<^verbatim>\<open>"Store owners can update their own stores"\<close>, \<^verbatim>\<open>"System admins can manage all stores"\<close>.\<close>

definition stores_update_using :: "database \<Rightarrow> uuid \<Rightarrow> store_row \<Rightarrow> bool" where
  "stores_update_using db uid s =
     (uid = st_user_id s \<or> has_role db uid system_administrator)"

text \<open>\<^verbatim>\<open>"Users can view all ratings"\<close> (\<^verbatim>\<open>USING (true)\<close>), \<^verbatim>\<open>"System admins can manage all ratings"\<close>.\<close>

definition ratings_select_using :: "database \<Rightarrow> uuid \<Rightarrow> rating_row \<Rightarrow> bool" where
  "ratings_select_using db uid r = (True \<or> has_role db uid system_administrator)"

text \<open>\<^verbatim>\<open>"Normal users can create ratings"\<close>, \<^verbatim>\<open>"System admins can manage all ratings"\<close>.\<close>

definition ratings_insert_check :: "database \<Rightarrow> uuid \<Rightarrow> rating_row \<Rightarrow> bool" where
  "ratings_insert_check db uid r =
     (has_role db uid normal_user \<and> uid = rt_user_id r \<or> has_role db uid system_administrator)"

text \<open>\<^verbatim>\<open>"Normal users can update their own ratings"\<close>, \<^verbatim>\<open>"System admins can manage all ratings"\<close>.\<close>

definition ratings_update_using :: "database \<Rightarrow> uuid \<Rightarrow> rating_row \<Rightarrow> bool" where
  "ratings_update_using db uid r =
     (has_role db uid normal_user \<and> uid = rt_user_id r \<or> has_role db uid system_administrator)"

text \<open>No policy names \<^verbatim>\<open>DELETE\<close> on ratings but \<^verbatim>\<open>"System admins can manage all ratings"\<close>.\<close>

definition ratings_delete_using :: "database \<Rightarrow> uuid \<Rightarrow> rating_row \<Rightarrow> bool" where
  "ratings_delete_using db uid r = has_role db uid system_administrator"

section \<open>The aggregation trigger\<close>

text \<open>
  \<^verbatim>\<open>AVG\<close> of no row is \<^verbatim>\<open>NULL\<close>; the quotient is taken exactly. Storing a number into
  \<^verbatim>\<open>DECIMAL(2,1)\<close> rounds it to one fractional digit, a half away from zero, and fails
  when the rounded value needs more than one digit before the point.
\<close>

definition AVG :: "int list \<Rightarrow> rat option" where
  "AVG xs = (if xs = [] then None else Some (of_int (sum_list xs) / of_int (int (length xs))))"

definition COALESCE :: "'a option \<Rightarrow> 'a \<Rightarrow> 'a" where
  "COALESCE x d = (case x of None \<Rightarrow> d | Some v \<Rightarrow> v)"

definition round_half_away :: "rat \<Rightarrow> int" where
  "round_half_away x = (if 0 \<le> x then \<lfloor>x + 1 / 2\<rfloor> else - \<lfloor>- x + 1 / 2\<rfloor>)"

definition numeric_2_1 :: "rat \<Rightarrow> pg_error + int" where
  "numeric_2_1 x =
     (let tenths = round_half_away (10 * x)
      in if \<bar>tenths\<bar> < 100 then Inr tenths else Inl numeric_value_out_of_range)"

text \<open>
  \<^verbatim>\<open>update_store_rating()\<close>, with \<open>store_id'\<close> for
  \<^verbatim>\<open>COALESCE(NEW.store_id, OLD.store_id)\<close>. The function is not \<^verbatim>\<open>SECURITY DEFINER\<close>,
  so its \<^verbatim>\<open>UPDATE public.stores\<close> runs as the user whose statement fired the trigger:
  it reaches the rows that this user may update, and passes over the others without an
  error. The two sub-selects read the ratings this user may see.
\<close>

definition update_store_rating ::
  "database \<Rightarrow> uuid \<Rightarrow> timestamptz \<Rightarrow> uuid \<Rightarrow> pg_error + database" where
  "update_store_rating db uid now store_id' =
     (let rs = map rt_rating
                 (filter (\<lambda>r. ratings_select_using db uid r \<and> rt_store_id r = store_id')
                    (ratings db));
          target = (\<lambda>s. st_id s = store_id' \<and> stores_update_using db uid s)
      in if list_ex target (stores db) then
           case numeric_2_1 (COALESCE (AVG rs) 0) of
             Inl error \<Rightarrow> Inl error
           | Inr average \<Rightarrow>
               Inr (db\<lparr>stores :=
                      map (\<lambda>s. if target s
                                then s\<lparr>st_average_rating := average,
                                       st_total_ratings := int (length rs),
                                       st_updated_at := now\<rparr>
                                else s) (stores db)\<rparr>)
         else Inr db)"

section \<open>The rating ledger\<close>

record rating_payload =
  rp_user_id :: uuid
  rp_store_id :: uuid
  rp_rating :: int

definition rating_check :: "int \<Rightarrow> bool" where
  "rating_check v = (1 \<le> v \<and> v \<le> 5)"

text \<open>
  \<^verbatim>\<open>INSERT INTO ratings (user_id, store_id, rating)\<close>: the policy check on the new row,
  the \<^verbatim>\<open>CHECK\<close> on the value, \<^verbatim>\<open>UNIQUE (user_id, store_id)\<close>, the two references, and
  then the trigger \<^verbatim>\<open>update_store_rating_on_insert\<close>, whose failure undoes the insert.
\<close>

definition insert_rating ::
  "database \<Rightarrow> uuid \<Rightarrow> timestamptz \<Rightarrow> rating_payload \<Rightarrow> pg_error + database" where
  "insert_rating db uid now p =
     (let row = \<lparr>rt_id = next_uuid db, rt_user_id = rp_user_id p, rt_store_id = rp_store_id p,
                 rt_rating = rp_rating p, rt_created_at = now, rt_updated_at = now\<rparr>
      in if ratings_insert_check db uid row then
           if rating_check (rp_rating p) then
             if list_ex (\<lambda>r. rt_user_id r = rp_user_id p \<and> rt_store_id r = rp_store_id p)
                  (ratings db)
             then Inl unique_violation
             else if rp_user_id p \<in> set (auth_users db) \<and>
                     rp_store_id p \<in> set (map st_id (stores db))
             then update_store_rating
                    (db\<lparr>ratings := ratings db @ [row], next_uuid := Suc (next_uuid db)\<rparr>)
                    uid now (rp_store_id p)
             else Inl foreign_key_violation
           else Inl check_violation
         else Inl insufficient_privilege)"

text \<open>
  Modelled from the spec: the trigger function \<^verbatim>\<open>update_updated_at_column()\<close> of
  \<^verbatim>\<open>update_ratings_updated_at\<close> and \<^verbatim>\<open>update_stores_updated_at\<close> is not in this
  migration; an update overwrites \<^verbatim>\<open>updated_at\<close> with the current time.
\<close>

definition update_ratings_updated_at :: "timestamptz \<Rightarrow> rating_row \<Rightarrow> rating_row" where
  "update_ratings_updated_at now r = r\<lparr>rt_updated_at := now\<rparr>"


text \<open>
  \<^verbatim>\<open>UPDATE ratings SET rating = v WHERE id = id'\<close>: a row the caller may not update is
  passed over; the new row is checked against the same policy and the \<^verbatim>\<open>CHECK\<close>; then
  the trigger \<^verbatim>\<open>update_store_rating_on_update\<close>.
\<close>

definition update_rating ::
  "database \<Rightarrow> uuid \<Rightarrow> timestamptz \<Rightarrow> uuid \<Rightarrow> int \<Rightarrow> pg_error + database" where
  "update_rating db uid now id' v =
     (case find (\<lambda>r. rt_id r = id' \<and> ratings_select_using db uid r \<and>
                      ratings_update_using db uid r) (ratings db) of
        None \<Rightarrow> Inr db
      | Some old \<Rightarrow>
          (let new = update_ratings_updated_at now (old\<lparr>rt_rating := v\<rparr>)
           in if ratings_update_using db uid new then
                if rating_check v then
                  update_store_rating
                    (db\<lparr>ratings := map (\<lambda>r. if rt_id r = id' then new else r) (ratings db)\<rparr>)
                    uid now (rt_store_id new)
                else Inl check_violation
              else Inl insufficient_privilege))"

text \<open>
  \<^verbatim>\<open>DELETE FROM ratings WHERE id = id'\<close>, then \<^verbatim>\<open>update_store_rating_on_delete\<close> with
  \<^verbatim>\<open>OLD.store_id\<close>.
\<close>

definition delete_rating ::
  "database \<Rightarrow> uuid \<Rightarrow> timestamptz \<Rightarrow> uuid \<Rightarrow> pg_error + database" where
  "delete_rating db uid now id' =
     (case find (\<lambda>r. rt_id r = id' \<and> ratings_select_using db uid r \<and>
                      ratings_delete_using db uid r) (ratings db) of
        None \<Rightarrow> Inr db
      | Some old \<Rightarrow>
          update_store_rating (db\<lparr>ratings := filter (\<lambda>r. rt_id r \<noteq> id') (ratings db)\<rparr>)
            uid now (rt_store_id old))"

text \<open>
  \<^verbatim>\<open>.upsert(payload, { onConflict })\<close> is \<^verbatim>\<open>INSERT ... ON CONFLICT (target) DO UPDATE\<close>
  setting the payload's columns. With no \<^verbatim>\<open>onConflict\<close> the target is the primary key;
  a payload without \<^verbatim>\<open>id\<close> gets a fresh one, which no row has, so the statement inserts
  and the other unique constraint of the table can still fail it. With the target
  \<^verbatim>\<open>user_id,store_id\<close> the row of the pair, when there is one, is updated: the insert
  policy and the \<^verbatim>\<open>CHECK\<close> on the proposed row, the update policy on the old and on the
  new row, then the trigger \<^verbatim>\<open>update_store_rating_on_update\<close>.
\<close>

datatype conflict_target = primary_key | user_id_store_id

definition upsert_rating ::
  "database \<Rightarrow> uuid \<Rightarrow> timestamptz \<Rightarrow> conflict_target \<Rightarrow> rating_payload
     \<Rightarrow> pg_error + database" where
  "upsert_rating db uid now target p =
     (case (case target of
              primary_key \<Rightarrow> None
            | user_id_store_id \<Rightarrow>
                find (\<lambda>r. rt_user_id r = rp_user_id p \<and> rt_store_id r = rp_store_id p)
                  (ratings db)) of
        None \<Rightarrow> insert_rating db uid now p
      | Some old \<Rightarrow>
          (let proposed = \<lparr>rt_id = next_uuid db, rt_user_id = rp_user_id p,
                           rt_store_id = rp_store_id p, rt_rating = rp_rating p,
                           rt_created_at = now, rt_updated_at = now\<rparr>;
               new = update_ratings_updated_at now
                       (old\<lparr>rt_user_id := rp_user_id p, rt_store_id := rp_store_id p,
                            rt_rating := rp_rating p\<rparr>)
           in if ratings_insert_check db uid proposed then
                if rating_check (rp_rating p) then
                  if ratings_update_using db uid old \<and> ratings_update_using db uid new then
                    update_store_rating
                      (db\<lparr>ratings := map (\<lambda>r. if rt_id r = rt_id old then new else r)
                                         (ratings db)\<rparr>)
                      uid now (rt_store_id new)
                  else Inl insufficient_privilege
                else Inl check_violation
              else Inl insufficient_privilege))"

text \<open>
  \<^verbatim>\<open>submitRating\<close> of the user dashboard. \<open>selectedStore\<close> is the id of the selected
  store, \<open>user\<close> the signed-in user, \<open>None\<close> for \<^verbatim>\<open>null\<close>. The outcome is \<open>Skipped\<close>
  for the early \<^verbatim>\<open>return\<close>, \<open>Submitted\<close> for the success toast and \<open>Failed\<close> for the
  error that is thrown and shown.
\<close>

datatype submit_outcome = Skipped | Submitted | Failed pg_error

definition submitRating ::
  "database \<Rightarrow> timestamptz \<Rightarrow> uuid option \<Rightarrow> uuid option \<Rightarrow> int
     \<Rightarrow> database \<times> submit_outcome" where
  "submitRating db now selectedStore user selectedRating =
     (case selectedStore of
        None \<Rightarrow> (db, Skipped)
      | Some store_id' \<Rightarrow>
          (case user of
             None \<Rightarrow> (db, Skipped)
           | Some user_id' \<Rightarrow>
               if selectedRating = 0 then (db, Skipped)
               else (case upsert_rating db user_id' now primary_key
                            \<lparr>rp_user_id = user_id', rp_store_id = store_id',
                             rp_rating = selectedRating\<rparr> of
                       Inl error \<Rightarrow> (db, Failed error)
                     | Inr db' \<Rightarrow> (db', Submitted))))"

text \<open>
  The query of \<^verbatim>\<open>fetchRatings\<close>:
  \<^verbatim>\<open>from('ratings').select(...).eq('store_id', id).order('created_at', { ascending: false })\<close>.
  A \<^verbatim>\<open>SELECT\<close> under row-level security returns the rows the caller may see.
\<close>

definition select_ratings_for_store ::
  "database \<Rightarrow> uuid \<Rightarrow> uuid \<Rightarrow> pg_error + rating_row list" where
  "select_ratings_for_store db uid store_id' =
     Inr (rev (sort_key rt_created_at
            (filter (\<lambda>r. ratings_select_using db uid r \<and> rt_store_id r = store_id')
               (ratings db))))"

text \<open>
  \<^verbatim>\<open>.single()\<close> is an error unless exactly one row comes back. \<^verbatim>\<open>fetchRatings\<close> of the
  store owner's dashboard looks up the store of the signed-in user (every signed-in user
  may read \<^verbatim>\<open>stores\<close>), then its ratings; \<open>None\<close> is a return that leaves the list on
  the screen as it was. The names joined from \<^verbatim>\<open>profiles\<close> are left out.
\<close>

fun single :: "'a list \<Rightarrow> 'a option" where
  "single [r] = Some r"
| "single rs = None"

definition fetchRatings :: "database \<Rightarrow> uuid option \<Rightarrow> rating_row list option" where
  "fetchRatings db user =
     (case user of
        None \<Rightarrow> None
      | Some uid \<Rightarrow>
          (case single (filter (\<lambda>s. st_user_id s = uid) (stores db)) of
             None \<Rightarrow> None
           | Some storeData \<Rightarrow>
               (case select_ratings_for_store db uid (st_id storeData) of
                  Inl error \<Rightarrow> None
                | Inr ratingsData \<Rightarrow> Some ratingsData)))"

section \<open>Updating a store row\<close>





section \<open>Two clients at the role bootstrap\<close>





section \<open>Table constraints and sample databases\<close>

text \<open>\<^verbatim>\<open>UNIQUE (user_id, role)\<close> of \<^verbatim>\<open>user_roles\<close>, \<^verbatim>\<open>UNIQUE (user_id, store_id)\<close> of \<^verbatim>\<open>ratings\<close>.\<close>

definition user_roles_unique :: "database \<Rightarrow> bool" where
  "user_roles_unique db = distinct (map (\<lambda>r. (ur_user_id r, ur_role r)) (user_roles db))"

definition ratings_unique :: "database \<Rightarrow> bool" where
  "ratings_unique db = distinct (map (\<lambda>r. (rt_user_id r, rt_store_id r)) (ratings db))"

text \<open>
  An administrator (user 1), the owner (user 10) of store 100, a normal user (user 20)
  and a user with no role yet (user 30); no rating so far.
\<close>

definition sample_db :: database where
  "sample_db =
     \<lparr>auth_users = [1, 10, 20, 30],
      user_roles =
        [\<lparr>ur_id = 1, ur_user_id = 1, ur_role = system_administrator, ur_created_at = 0\<rparr>,
         \<lparr>ur_id = 2, ur_user_id = 10, ur_role = store_owner, ur_created_at = 0\<rparr>,
         \<lparr>ur_id = 3, ur_user_id = 20, ur_role = normal_user, ur_created_at = 0\<rparr>],
      stores =
        [\<lparr>st_id = 100, st_user_id = 10, st_name = ''The Corner Book Shop X'',
          st_email = ''a@b.c'', st_address = ''1 Main St'', st_average_rating = 0,
          st_total_ratings = 0, st_created_at = 0, st_updated_at = 0\<rparr>],
      ratings = [],
      next_uuid = 1000\<rparr>"

text \<open>The same after user 20 has rated store 100 with 4 at time 5.\<close>

definition rated_db :: database where
  "rated_db =
     sample_db\<lparr>ratings := [\<lparr>rt_id = 1000, rt_user_id = 20, rt_store_id = 100, rt_rating = 4,
                              rt_created_at = 5, rt_updated_at = 5\<rparr>],
               next_uuid := 1001\<rparr>"

text \<open>Two users of the identity provider and no role row yet.\<close>

definition first_login_db :: database where
  "first_login_db =
     \<lparr>auth_users = [1, 2], user_roles = [], stores = [], ratings = [], next_uuid = 1\<rparr>"

text \<open>User 20 holds two roles.\<close>

definition two_roles_db :: database where
  "two_roles_db =
     sample_db\<lparr>user_roles := user_roles sample_db @
                  [\<lparr>ur_id = 1000, ur_user_id = 20, ur_role = store_owner, ur_created_at = 1\<rparr>],
               next_uuid := 1001\<rparr>"



section \<open>Basic facts\<close>

lemmas policy_defs = ratings_insert_check_def ratings_update_using_def ratings_select_using_def
  ratings_delete_using_def stores_update_using_def user_roles_select_using_def
  user_roles_insert_check_def has_role_def

lemma has_role_frame [simp]:
  "has_role (db\<lparr>ratings := rs\<rparr>) = has_role db"
  "has_role (db\<lparr>next_uuid := n\<rparr>) = has_role db"
  "has_role (db\<lparr>stores := ss\<rparr>) = has_role db"
  by (simp_all add: has_role_def fun_eq_iff)


section \<open>Rounding into \<^verbatim>\<open>DECIMAL(2,1)\<close>\<close>

lemma round_half_away_nearest: "\<bar>of_int (round_half_away x) - x\<bar> \<le> 1 / 2"
proof (cases "0 \<le> x")
  case True
  have "of_int \<lfloor>x + 1 / 2\<rfloor> \<le> x + 1 / 2" and "x + 1 / 2 < of_int \<lfloor>x + 1 / 2\<rfloor> + 1"
    by linarith+
  then show ?thesis
    unfolding round_half_away_def by (simp only: True if_True; linarith?)
next
  case False
  have "of_int \<lfloor>- x + 1 / 2\<rfloor> \<le> - x + 1 / 2"
    and "- x + 1 / 2 < of_int \<lfloor>- x + 1 / 2\<rfloor> + 1"
    by linarith+
  then show ?thesis
    unfolding round_half_away_def by (simp only: False if_False of_int_minus; linarith?)
qed

lemma round_half_away_nonneg: "0 \<le> x \<Longrightarrow> round_half_away x = round x"
  by (simp add: round_half_away_def round_def)

lemma sum_list_rating_bounds:
  "list_all rating_check vs \<Longrightarrow>
     int (length vs) \<le> sum_list vs \<and> sum_list vs \<le> 5 * int (length vs)"
  by (induction vs) (auto simp: rating_check_def)

text \<open>
  On values that pass the \<^verbatim>\<open>CHECK\<close> of the ratings table, the expression of the
  trigger is the mean rounded to one fractional digit (in tenths), \<open>0\<close> for no rating,
  and it always fits the column.
\<close>

lemma numeric_2_1_of_ratings:
  assumes "list_all rating_check vs"
  shows "numeric_2_1 (COALESCE (AVG vs) 0) =
           Inr (if vs = [] then 0
                else round (10 * (of_int (sum_list vs) / of_int (int (length vs)) :: rat)))"
proof (cases "vs = []")
  case True
  then show ?thesis
    by (simp add: numeric_2_1_def COALESCE_def AVG_def round_half_away_def floor_eq_iff)
next
  case False
  let ?n = "of_int (int (length vs)) :: rat"
  let ?m = "of_int (sum_list vs) / ?n"
  have n: "0 < ?n" using False by simp
  have b: "int (length vs) \<le> sum_list vs" "sum_list vs \<le> 5 * int (length vs)"
    using sum_list_rating_bounds [OF assms] by simp_all
  have "?n \<le> of_int (sum_list vs)" using b(1) by (simp only: of_int_le_iff)
  then have lo: "1 \<le> ?m" using n by (simp add: le_divide_eq)
  have "(of_int (sum_list vs) :: rat) \<le> of_int (5 * int (length vs))"
    using b(2) by (simp only: of_int_le_iff)
  then have hi: "?m \<le> 5" using n by (simp add: divide_le_eq)
  have r: "round_half_away (10 * ?m) = round (10 * ?m)"
    using lo by (intro round_half_away_nonneg) simp
  have "round (10 * ?m) \<le> round (50 :: rat)" using hi by (intro round_mono) simp
  moreover have "round (0 :: rat) \<le> round (10 * ?m)" using lo by (intro round_mono) simp
  ultimately have "\<bar>round (10 * ?m)\<bar> < 100" by simp
  then show ?thesis using False r
    by (simp add: numeric_2_1_def COALESCE_def AVG_def Let_def)
qed

section \<open>The aggregation trigger under row-level security\<close>

lemma update_store_rating_frame:
  assumes "update_store_rating db uid now sid = Inr db'"
  shows "ratings db' = ratings db" and "user_roles db' = user_roles db"
    and "auth_users db' = auth_users db" and "next_uuid db' = next_uuid db"
    and "map st_id (stores db') = map st_id (stores db)"
    and "map st_user_id (stores db') = map st_user_id (stores db)"
  using assms
  by (auto simp: update_store_rating_def Let_def split: if_splits sum.splits)

text \<open>
  Where the user whose statement fired the trigger may update the store (its owner, or an
  administrator), the store row holds the count and the rounded mean of its ratings
  afterwards.
\<close>

lemma update_store_rating_aggregates:
  assumes run: "update_store_rating db uid now sid = Inr db'"
    and mem: "s' \<in> set (stores db')" and sid: "st_id s' = sid"
    and may: "uid = st_user_id s' \<or> has_role db uid system_administrator"
  shows "st_total_ratings s' = int (length (filter (\<lambda>r. rt_store_id r = sid) (ratings db'))) \<and>
         numeric_2_1 (COALESCE (AVG (map rt_rating
             (filter (\<lambda>r. rt_store_id r = sid) (ratings db')))) 0)
           = Inr (st_average_rating s')"
proof -
  let ?rs = "map rt_rating (filter (\<lambda>r. rt_store_id r = sid) (ratings db))"
  let ?target = "\<lambda>s. st_id s = sid \<and> stores_update_using db uid s"
  have rs: "map rt_rating
              (filter (\<lambda>r. ratings_select_using db uid r \<and> rt_store_id r = sid) (ratings db))
            = ?rs"
    by (simp add: ratings_select_using_def)
  have same: "ratings db' = ratings db"
    using run by (rule update_store_rating_frame)
  have "map st_id (stores db') = map st_id (stores db)"
    and "map st_user_id (stores db') = map st_user_id (stores db)"
    using run by (rule update_store_rating_frame)+
  then have "(st_id s', st_user_id s') \<in> set (map (\<lambda>s. (st_id s, st_user_id s)) (stores db'))"
    and "map (\<lambda>s. (st_id s, st_user_id s)) (stores db') =
         map (\<lambda>s. (st_id s, st_user_id s)) (stores db)"
    using mem by (auto simp: list_eq_iff_nth_eq)
  then obtain s0 where s0: "s0 \<in> set (stores db)" "st_id s0 = sid" "st_user_id s0 = st_user_id s'"
    using sid by auto
  then have ex: "list_ex ?target (stores db)"
    using may by (auto simp: list_ex_iff stores_update_using_def)
  then obtain average where avg: "numeric_2_1 (COALESCE (AVG ?rs) 0) = Inr average"
    and db': "stores db' = map (\<lambda>s. if ?target s
                                then s\<lparr>st_average_rating := average,
                                       st_total_ratings := int (length ?rs),
                                       st_updated_at := now\<rparr>
                                else s) (stores db)"
    using run unfolding update_store_rating_def Let_def rs
    by (auto split: sum.splits)
  from mem db' obtain s where s: "s \<in> set (stores db)"
    and s': "s' = (if ?target s then s\<lparr>st_average_rating := average,
                                       st_total_ratings := int (length ?rs),
                                       st_updated_at := now\<rparr> else s)"
    by auto
  have "?target s" using s' sid may by (auto simp: stores_update_using_def split: if_splits)
  then have "s' = s\<lparr>st_average_rating := average, st_total_ratings := int (length ?rs),
                   st_updated_at := now\<rparr>"
    using s' by simp
  then show ?thesis using avg same by simp
qed

lemma insert_rating_aggregates:
  assumes run: "insert_rating db uid now p = Inr db'"
    and mem: "s' \<in> set (stores db')" and sid: "st_id s' = rp_store_id p"
    and may: "uid = st_user_id s' \<or> has_role db uid system_administrator"
  shows "st_total_ratings s' =
           int (length (filter (\<lambda>r. rt_store_id r = rp_store_id p) (ratings db'))) \<and>
         numeric_2_1 (COALESCE (AVG (map rt_rating
             (filter (\<lambda>r. rt_store_id r = rp_store_id p) (ratings db')))) 0)
           = Inr (st_average_rating s')"
proof -
  obtain db1 where t: "update_store_rating db1 uid now (rp_store_id p) = Inr db'"
    and r: "has_role db1 = has_role db"
    using run by (auto simp: insert_rating_def Let_def split: if_splits)
  show ?thesis
    using update_store_rating_aggregates [OF t mem sid] may r by simp
qed

lemma insert_rating_row:
  assumes "insert_rating db uid now p = Inr db'"
  shows "rating_check (rp_rating p) \<and>
         map rt_rating (filter (\<lambda>r. rt_store_id r = rp_store_id p) (ratings db')) =
           map rt_rating (filter (\<lambda>r. rt_store_id r = rp_store_id p) (ratings db)) @ [rp_rating p]"
proof -
  obtain db1 where t: "update_store_rating db1 uid now (rp_store_id p) = Inr db'"
    and r: "ratings db1 = ratings db @
              [\<lparr>rt_id = next_uuid db, rt_user_id = rp_user_id p, rt_store_id = rp_store_id p,
                rt_rating = rp_rating p, rt_created_at = now, rt_updated_at = now\<rparr>]"
    and c: "rating_check (rp_rating p)"
    using assms by (auto simp: insert_rating_def Let_def split: if_splits)
  have "ratings db' = ratings db1" using t by (rule update_store_rating_frame)
  then show ?thesis using r c by simp
qed

text \<open>
  When the owner of the store or an administrator inserts a rating into a table whose
  rows pass the \<^verbatim>\<open>CHECK\<close>, the store row holds the count of the store's ratings and
  their mean rounded to one fractional digit.
\<close>

lemma insert_rating_aggregates_checked:
  assumes run: "insert_rating db uid now p = Inr db'"
    and chk: "list_all (\<lambda>r. rating_check (rt_rating r)) (ratings db)"
    and mem: "s' \<in> set (stores db')" and sid: "st_id s' = rp_store_id p"
    and may: "uid = st_user_id s' \<or> has_role db uid system_administrator"
  shows "st_total_ratings s' =
           int (length (filter (\<lambda>r. rt_store_id r = rp_store_id p) (ratings db'))) \<and>
         st_average_rating s' =
           round (10 * (of_int (sum_list (map rt_rating
                           (filter (\<lambda>r. rt_store_id r = rp_store_id p) (ratings db'))))
                        / of_int (int (length
                           (filter (\<lambda>r. rt_store_id r = rp_store_id p) (ratings db')))) :: rat))"
proof -
  let ?vs = "map rt_rating (filter (\<lambda>r. rt_store_id r = rp_store_id p) (ratings db'))"
  have row: "rating_check (rp_rating p)"
    "?vs = map rt_rating (filter (\<lambda>r. rt_store_id r = rp_store_id p) (ratings db)) @ [rp_rating p]"
    using insert_rating_row [OF run] by simp_all
  have "list_all rating_check
          (map rt_rating (filter (\<lambda>r. rt_store_id r = rp_store_id p) (ratings db)))"
    using chk by (auto simp: list_all_iff)
  then have all: "list_all rating_check ?vs" using row by simp
  have ne: "?vs \<noteq> []" using row(2) by simp
  have agg: "st_total_ratings s' =
               int (length (filter (\<lambda>r. rt_store_id r = rp_store_id p) (ratings db')))"
    "numeric_2_1 (COALESCE (AVG ?vs) 0) = Inr (st_average_rating s')"
    using insert_rating_aggregates [OF run mem sid may] by simp_all
  have "numeric_2_1 (COALESCE (AVG ?vs) 0) =
          Inr (round (10 * (of_int (sum_list ?vs) / of_int (int (length ?vs)) :: rat)))"
    using numeric_2_1_of_ratings [OF all] ne by simp
  then have "st_average_rating s' =
          round (10 * (of_int (sum_list ?vs) / of_int (int (length ?vs)) :: rat))"
    using agg(2) by simp
  then show ?thesis using agg(1) by simp
qed

lemma update_rating_aggregates:
  assumes run: "update_rating db uid now id' v = Inr db'"
    and old: "find (\<lambda>r. rt_id r = id' \<and> ratings_select_using db uid r \<and>
                      ratings_update_using db uid r) (ratings db) = Some old"
    and mem: "s' \<in> set (stores db')" and sid: "st_id s' = rt_store_id old"
    and may: "uid = st_user_id s' \<or> has_role db uid system_administrator"
  shows "st_total_ratings s' =
           int (length (filter (\<lambda>r. rt_store_id r = rt_store_id old) (ratings db'))) \<and>
         numeric_2_1 (COALESCE (AVG (map rt_rating
             (filter (\<lambda>r. rt_store_id r = rt_store_id old) (ratings db')))) 0)
           = Inr (st_average_rating s')"
proof -
  obtain db1 where t: "update_store_rating db1 uid now (rt_store_id old) = Inr db'"
    and r: "has_role db1 = has_role db"
    using run old
    by (auto simp: update_rating_def update_ratings_updated_at_def Let_def split: if_splits)
  show ?thesis
    using update_store_rating_aggregates [OF t mem sid] may r by simp
qed

lemma delete_rating_aggregates:
  assumes run: "delete_rating db uid now id' = Inr db'"
    and old: "find (\<lambda>r. rt_id r = id' \<and> ratings_select_using db uid r \<and>
                      ratings_delete_using db uid r) (ratings db) = Some old"
    and mem: "s' \<in> set (stores db')" and sid: "st_id s' = rt_store_id old"
  shows "st_total_ratings s' =
           int (length (filter (\<lambda>r. rt_store_id r = rt_store_id old) (ratings db'))) \<and>
         numeric_2_1 (COALESCE (AVG (map rt_rating
             (filter (\<lambda>r. rt_store_id r = rt_store_id old) (ratings db')))) 0)
           = Inr (st_average_rating s')"
proof -
  have adm: "has_role db uid system_administrator"
    using old by (auto simp: find_Some_iff ratings_delete_using_def)
  obtain db1 where t: "update_store_rating db1 uid now (rt_store_id old) = Inr db'"
    and r: "has_role db1 = has_role db"
    using run old by (auto simp: delete_rating_def)
  show ?thesis
    using update_store_rating_aggregates [OF t mem sid] adm r by simp
qed

text \<open>
  Where that user may update no row of the store, the trigger changes nothing, and the
  rating is written all the same.
\<close>

lemma update_store_rating_passed_over:
  assumes "\<not> list_ex (\<lambda>s. st_id s = sid \<and>
               (uid = st_user_id s \<or> has_role db uid system_administrator)) (stores db)"
  shows "update_store_rating db uid now sid = Inr db"
  using assms by (simp add: update_store_rating_def stores_update_using_def)

lemma insert_rating_stale_aggregates:
  assumes run: "insert_rating db uid now p = Inr db'"
    and no: "\<not> list_ex (\<lambda>s. st_id s = rp_store_id p \<and>
               (uid = st_user_id s \<or> has_role db uid system_administrator)) (stores db)"
  shows "stores db' = stores db \<and> length (ratings db') = Suc (length (ratings db))"
proof -
  let ?db1 = "db\<lparr>ratings := ratings db @
                 [\<lparr>rt_id = next_uuid db, rt_user_id = rp_user_id p, rt_store_id = rp_store_id p,
                   rt_rating = rp_rating p, rt_created_at = now, rt_updated_at = now\<rparr>],
               next_uuid := Suc (next_uuid db)\<rparr>"
  have t: "update_store_rating ?db1 uid now (rp_store_id p) = Inr db'"
    using run by (auto simp: insert_rating_def Let_def split: if_splits)
  have "update_store_rating ?db1 uid now (rp_store_id p) = Inr ?db1"
    using no by (intro update_store_rating_passed_over) simp
  then have "db' = ?db1" using t by simp
  then show ?thesis by simp
qed

text \<open>
  Claim C1: after each insert, update or delete of a rating row, the affected store's
  \<^verbatim>\<open>total_ratings\<close> is the count of its rating rows and its \<^verbatim>\<open>average_rating\<close> their
  mean rounded to one decimal digit. The code does not keep this: the normal user 20
  rates store 100, which user 10 owns, with 4. The rating row is written, and the
  trigger's update of the store, run as user 20, reaches no row: the store keeps
  \<^verbatim>\<open>total_ratings = 0\<close> and \<^verbatim>\<open>average_rating = 0.0\<close> where the claim has 1 and 4.0.
\<close>

theorem rating_by_normal_user_leaves_aggregate:
  "submitRating sample_db 5 (Some 100) (Some 20) 4 = (rated_db, Submitted) \<and>
   map rt_rating (filter (\<lambda>r. rt_store_id r = 100) (ratings rated_db)) = [4] \<and>
   map (\<lambda>s. (st_id s, st_total_ratings s, st_average_rating s)) (stores rated_db)
     = [(100, 0, 0)]"
  by (simp add: submitRating_def upsert_rating_def insert_rating_def rating_check_def
      update_store_rating_def policy_defs sample_db_def rated_db_def)

section \<open>One rating per user and store\<close>

lemma distinct_count_le_1: "distinct xs \<Longrightarrow> length (filter (\<lambda>k. k = a) xs) \<le> 1"
  by (induction xs) (auto simp: filter_empty_conv)

lemma ratings_unique_count:
  assumes "ratings_unique db"
  shows "length (filter (\<lambda>r. rt_user_id r = u \<and> rt_store_id r = s) (ratings db)) \<le> 1"
proof -
  have "length (filter (\<lambda>k. k = (u, s))
          (map (\<lambda>r. (rt_user_id r, rt_store_id r)) (ratings db))) \<le> 1"
    using assms unfolding ratings_unique_def by (rule distinct_count_le_1)
  then show ?thesis by (simp add: filter_map comp_def prod_eq_iff)
qed

lemma insert_rating_unique:
  assumes "ratings_unique db" and "insert_rating db uid now p = Inr db'"
  shows "ratings_unique db'"
proof -
  have no: "\<not> list_ex (\<lambda>r. rt_user_id r = rp_user_id p \<and> rt_store_id r = rp_store_id p)
                (ratings db)"
    using assms(2) by (auto simp: insert_rating_def Let_def split: if_splits)
  obtain row where t: "update_store_rating
                         (db\<lparr>ratings := ratings db @ [row], next_uuid := Suc (next_uuid db)\<rparr>)
                         uid now (rp_store_id p) = Inr db'"
    and row: "rt_user_id row = rp_user_id p" "rt_store_id row = rp_store_id p"
    using assms(2) by (auto simp: insert_rating_def Let_def split: if_splits)
  have "ratings db' = ratings db @ [row]"
    using update_store_rating_frame(1) [OF t] by simp
  then show ?thesis using assms(1) no row
    by (auto simp: ratings_unique_def list_ex_iff)
qed

text \<open>Whatever \<^verbatim>\<open>submitRating\<close> does, no pair of user and store gets a second row.\<close>

lemma submitRating_unique:
  assumes "ratings_unique db"
  shows "ratings_unique (fst (submitRating db now selectedStore user v))"
  using assms
  by (auto simp: submitRating_def upsert_rating_def insert_rating_unique
      split: option.splits sum.splits)

text \<open>A second submission of the same user for the same store is refused, not merged.\<close>

lemma submitRating_existing_pair:
  assumes "list_ex (\<lambda>r. rt_user_id r = u \<and> rt_store_id r = s) (ratings db)"
    and "has_role db u normal_user \<or> has_role db u system_administrator"
    and "rating_check v"
  shows "submitRating db now (Some s) (Some u) v = (db, Failed unique_violation)"
proof -
  have "v \<noteq> 0" using assms(3) by (auto simp: rating_check_def)
  moreover have "insert_rating db u now \<lparr>rp_user_id = u, rp_store_id = s, rp_rating = v\<rparr>
                   = Inl unique_violation"
    using assms by (simp add: insert_rating_def ratings_insert_check_def Let_def)
  ultimately show ?thesis
    by (simp add: submitRating_def upsert_rating_def)
qed

text \<open>With the pair as conflict target the same request overwrites the row.\<close>

lemma upsert_on_pair_overwrites:
  "upsert_rating rated_db 20 6 user_id_store_id
     \<lparr>rp_user_id = 20, rp_store_id = 100, rp_rating = 5\<rparr> =
   Inr (rated_db\<lparr>ratings := [\<lparr>rt_id = 1000, rt_user_id = 20, rt_store_id = 100,
                               rt_rating = 5, rt_created_at = 5, rt_updated_at = 6\<rparr>]\<rparr>)"
  by (simp add: upsert_rating_def insert_rating_def rating_check_def
      update_ratings_updated_at_def update_store_rating_def policy_defs sample_db_def
      rated_db_def)

text \<open>
  Claim C2: a second rating of user U for store S updates U's row (value and
  \<^verbatim>\<open>updated_at\<close>) and never makes a second row. The second half holds
  (\<open>submitRating_unique\<close>); the first does not: user 20, whose rating of store 100 is 4,
  submits 5. The \<^verbatim>\<open>upsert\<close> names no \<^verbatim>\<open>onConflict\<close>, the request ends with a unique
  violation and the row keeps the value 4.
\<close>

theorem second_rating_is_rejected:
  "submitRating rated_db 6 (Some 100) (Some 20) 5 = (rated_db, Failed unique_violation) \<and>
   map (\<lambda>r. (rt_rating r, rt_updated_at r)) (ratings rated_db) = [(4, 5)]"
  by (simp add: submitRating_def upsert_rating_def insert_rating_def rating_check_def
      update_store_rating_def policy_defs sample_db_def rated_db_def)

section \<open>The role bootstrap\<close>

lemma select_own_roles:
  "select_user_roles db u u = filter (\<lambda>r. ur_user_id r = u) (user_roles db)"
  unfolding select_user_roles_def user_roles_select_using_def
  by (rule filter_cong) auto

lemma no_role_no_admin:
  "select_user_roles db u u = [] \<Longrightarrow> \<not> has_role db u r"
  by (auto simp: select_own_roles has_role_def list_ex_iff filter_empty_conv)

text \<open>Only an administrator passes the policy of \<^verbatim>\<open>user_roles\<close> for new rows.\<close>

lemma insert_user_role_denied:
  "\<not> has_role db uid system_administrator \<Longrightarrow>
     insert_user_role db uid now p = Inl insufficient_privilege"
  by (simp add: insert_user_role_def user_roles_insert_check_def Let_def)

lemma assignDefaultRole_denied:
  "\<not> has_role db userId system_administrator \<Longrightarrow>
     assignDefaultRole db now userId = (db, None)"
  by (simp add: assignDefaultRole_def insert_user_role_denied)

text \<open>
  A user with no role sees no row of \<^verbatim>\<open>user_roles\<close>, however many there are: the count
  is 0 and the role chosen is \<^verbatim>\<open>system_administrator\<close>.
\<close>

lemma count_of_user_without_role:
  assumes "select_user_roles db u u = []"
  shows "count_user_roles db u = 0"
proof -
  have "\<not> has_role db u system_administrator" using assms by (rule no_role_no_admin)
  moreover have "\<forall>r \<in> set (user_roles db). ur_user_id r \<noteq> u"
    using assms by (auto simp: select_own_roles filter_empty_conv)
  ultimately show ?thesis
    by (auto simp: count_user_roles_def user_roles_select_using_def filter_empty_conv)
qed

lemma fetchUserRole_no_role:
  assumes "select_user_roles db u u = []"
  shows "fetchUserRole db now u = (db, None)"
  using assms no_role_no_admin [OF assms]
  by (simp add: fetchUserRole_def assignDefaultRole_denied)

text \<open>
  The sign-up form tells every new user that the role assigned is
  \<^verbatim>\<open>system_administrator\<close>, and stores nothing.
\<close>

lemma onSubmit_role_new_user:
  assumes "select_user_roles db u u = []"
  shows "onSubmit_role db now u = (db, system_administrator)"
  using assms no_role_no_admin [OF assms]
  by (simp add: onSubmit_role_def count_of_user_without_role default_role_for_def
      insert_user_role_denied)

text \<open>
  Claim C3: a role bootstrap for a user with no role assigns \<^verbatim>\<open>system_administrator\<close>
  when no role row exists system-wide, \<^verbatim>\<open>normal_user\<close> otherwise, and persists the
  mapping. The code does neither. On the empty table, \<^verbatim>\<open>assignDefaultRole\<close> for user 1
  returns \<^verbatim>\<open>null\<close> and writes nothing, since the insert does not pass the policy of
  \<^verbatim>\<open>user_roles\<close>. On a table with three rows, user 30, who has no role, counts 0, chooses
  \<^verbatim>\<open>system_administrator\<close> and is refused in the same way.
\<close>

theorem assignDefaultRole_assigns_nothing:
  "assignDefaultRole first_login_db 5 1 = (first_login_db, None) \<and>
   length (user_roles sample_db) = 3 \<and>
   select_user_roles sample_db 30 30 = [] \<and>
   default_role_for (count_user_roles sample_db 30) = system_administrator \<and>
   assignDefaultRole sample_db 5 30 = (sample_db, None)"
  by (simp add: assignDefaultRole_def insert_user_role_def count_user_roles_def
      default_role_for_def select_user_roles_def policy_defs first_login_db_def sample_db_def)





section \<open>Several roles for one user\<close>




lemma maybeSingle_multiple: "2 \<le> length rs \<Longrightarrow> maybeSingle rs = MultipleRows"
  by (cases rs rule: maybeSingle.cases) auto

text \<open>
  Claim C10: when a user holds two or more role rows, which the uniqueness on the pair
  (user, role) permits, the role lookup at login fails instead of choosing one of the
  roles, and the user is treated as having no role: \<^verbatim>\<open>userRole\<close> is \<^verbatim>\<open>null\<close> and the
  page shown is the one for a pending role assignment.
\<close>

theorem fetchUserRole_multiple_roles:
  assumes "2 \<le> length (filter (\<lambda>r. ur_user_id r = userId) (user_roles db))"
  shows "fetchUserRole db now userId = (db, None) \<and>
         renderDashboard (snd (fetchUserRole db now userId)) = RoleAssignmentPending"
proof -
  have "maybeSingle (select_user_roles db userId userId) = MultipleRows"
    using assms by (simp add: select_own_roles maybeSingle_multiple)
  then show ?thesis by (simp add: fetchUserRole_def)
qed

theorem fetchUserRole_multiple_roles_witness:
  "user_roles_unique two_roles_db \<and>
   2 \<le> length (filter (\<lambda>r. ur_user_id r = 20) (user_roles two_roles_db)) \<and>
   fetchUserRole two_roles_db 9 20 = (two_roles_db, None) \<and>
   renderDashboard (snd (fetchUserRole two_roles_db 9 20)) = RoleAssignmentPending"
proof -
  have h: "2 \<le> length (filter (\<lambda>r. ur_user_id r = 20) (user_roles two_roles_db))"
    by (simp add: two_roles_db_def sample_db_def)
  have u: "user_roles_unique two_roles_db"
    by (simp add: user_roles_unique_def two_roles_db_def sample_db_def)
  show ?thesis using h u fetchUserRole_multiple_roles [OF h, of 9] by simp
qed

section \<open>Reading the ratings of a store\<close>

text \<open>
  Claim C5, as the code has it: for every store and every signed-in user, whatever the
  user's role, the query for the ratings of the store succeeds and returns all rating
  rows of the store, latest first. (As the claim states it, only the store's owner and
  administrators could read them, and any other user would get an error.)
\<close>

theorem select_ratings_for_store_all:
  "\<exists>rows. select_ratings_for_store db uid store_id' = Inr rows \<and>
      mset rows = mset (filter (\<lambda>r. rt_store_id r = store_id') (ratings db)) \<and>
      sorted (rev (map rt_created_at rows))"
  by (simp add: select_ratings_for_store_def ratings_select_using_def rev_map)

text \<open>
  Against claim C5 as stated: user 30 is neither the owner of store 100 (user 10) nor an
  administrator, and reads the rating user 20 gave to the store.
\<close>

theorem any_user_reads_ratings:
  "map st_user_id (filter (\<lambda>s. st_id s = 100) (stores rated_db)) = [10] \<and>
   \<not> has_role rated_db 30 system_administrator \<and>
   select_ratings_for_store rated_db 30 100 =
     Inr [\<lparr>rt_id = 1000, rt_user_id = 20, rt_store_id = 100, rt_rating = 4,
            rt_created_at = 5, rt_updated_at = 5\<rparr>]"
  by (simp add: select_ratings_for_store_def policy_defs sample_db_def rated_db_def)

text \<open>The dashboard of a store owner shows the ratings of the owner's one store.\<close>

lemma fetchRatings_of_owner:
  "fetchRatings rated_db (Some 10) =
     Some [\<lparr>rt_id = 1000, rt_user_id = 20, rt_store_id = 100, rt_rating = 4,
             rt_created_at = 5, rt_updated_at = 5\<rparr>] \<and>
   fetchRatings rated_db (Some 30) = None"
  by (simp add: fetchRatings_def select_ratings_for_store_def policy_defs sample_db_def
      rated_db_def)

section \<open>Who may write a rating\<close>










section \<open>Values outside 1 to 5\<close>





section \<open>Writing the aggregate columns of a store\<close>






end
